theory Spec2Isabelle
  imports Complex_Main
begin

section \<open>Data model of backend/server.py\<close>

text \<open>
  The forecasting pipeline of \<^verbatim>\<open>src/backend/server.py\<close>: \<^verbatim>\<open>prepare_dataframe\<close>, the five
  \<^verbatim>\<open>predict_*\<close> strategies and the \<^verbatim>\<open>/predict\<close> endpoint \<^verbatim>\<open>predict_stock\<close>.

  Conventions of the embedding.
  \<^item> A historical record is a dictionary; the pipeline reads the keys \<^verbatim>\<open>date\<close> and
    \<^verbatim>\<open>close\<close> only. A key may be absent (\<open>None\<close>). A present date is a string, a present
    close is a number; records with values of other JSON kinds are outside the model.
  \<^item> Python floats are real numbers plus the not-a-number value that pandas puts into a
    cell whose key is absent. Rounding is not modelled.
  \<^item> A pandas timestamp is an integer count of nanoseconds since the epoch, unbounded; the
    text that \<^verbatim>\<open>strftime('%Y-%m-%d')\<close> renders is represented by the number of the
    calendar day (days since the epoch).
  \<^item> Every \<^verbatim>\<open>raise\<close> is a value of type \<open>exn\<close> on the left of a sum.
\<close>

record hist_record =
  hist_date :: "string option"
  hist_close :: "real option"

datatype datetime = NaT | Timestamp int

datatype pyfloat = Num real | NaN

text \<open>One row of the prepared DataFrame: the column \<^verbatim>\<open>date\<close> after \<^verbatim>\<open>pd.to_datetime\<close>, and
  the cell of the column \<^verbatim>\<open>close\<close> (\<open>None\<close> where the record had no such key).\<close>

record row =
  date :: datetime
  close :: "real option"

type_synonym dataframe = "row list"

text \<open>Exceptions. \<open>StrOf e\<close> stands for Python's \<^verbatim>\<open>str(e)\<close>, which the endpoint puts into
  the detail of its status-500 answer. All of them derive from \<^verbatim>\<open>Exception\<close>; in particular
  FastAPI's \<^verbatim>\<open>HTTPException\<close> does.\<close>

datatype exn =
    KeyError string
  | ValueError
  | IndexError
  | LibraryError
  | HTTPException nat detail
and detail = Detail string | StrOf exn

record prediction =
  p_date :: int
  p_close :: pyfloat

text \<open>The optional fitting libraries. A fitted-and-predicted forecast is a frame of rows
  \<open>(ds, yhat)\<close>; the call takes the two-column frame \<open>(ds, y)\<close> and the horizon, and may raise.\<close>

type_synonym forecaster = "(datetime \<times> real option) list \<Rightarrow> int \<Rightarrow> exn + (datetime \<times> pyfloat) list"

text \<open>What the module finds around it: the date parser behind \<^verbatim>\<open>pd.to_datetime\<close> (\<open>None\<close>
  when the text does not parse, otherwise the timestamp in nanoseconds), and the two names
  \<^verbatim>\<open>NeuralProphet\<close> and \<^verbatim>\<open>Prophet\<close>, which are \<open>None\<close> when the import failed.\<close>

record env =
  parse_date :: "string \<Rightarrow> int option"
  NeuralProphet :: "forecaster option"
  Prophet :: "forecaster option"

record request =
  req_symbol :: string
  req_model :: string
  req_days :: int
  req_historical :: "hist_record list"

record response =
  resp_symbol :: string
  resp_model :: string
  resp_predictions :: "prediction list"

section \<open>Library operations used by the module\<close>

definition day_ns :: int where
  "day_ns = 86400000000000"

text \<open>\<^verbatim>\<open>(last_date + timedelta(days=i+1)).strftime('%Y-%m-%d')\<close>: \<^verbatim>\<open>NaT\<close> plus a timedelta is
  \<^verbatim>\<open>NaT\<close>, and \<^verbatim>\<open>NaT.strftime\<close> raises \<^verbatim>\<open>ValueError\<close>.\<close>

definition strftime :: "datetime \<Rightarrow> exn + int" where
  "strftime d = (case d of NaT \<Rightarrow> Inl ValueError | Timestamp t \<Rightarrow> Inr (t div day_ns))"

definition add_days :: "datetime \<Rightarrow> int \<Rightarrow> datetime" where
  "add_days d k = (case d of NaT \<Rightarrow> NaT | Timestamp t \<Rightarrow> Timestamp (t + k * day_ns))"

text \<open>\<^verbatim>\<open>df['date'].max()\<close> skips \<^verbatim>\<open>NaT\<close> and is \<^verbatim>\<open>NaT\<close> when nothing is left.\<close>

fun stamps :: "datetime list \<Rightarrow> int list" where
  "stamps [] = []"
| "stamps (NaT # ds) = stamps ds"
| "stamps (Timestamp t # ds) = t # stamps ds"

definition date_max :: "dataframe \<Rightarrow> datetime" where
  "date_max df = (case stamps (map date df) of [] \<Rightarrow> NaT | t # ts \<Rightarrow> Timestamp (fold max ts t))"

text \<open>\<^verbatim>\<open>a > b\<close> on timestamps; any comparison with \<^verbatim>\<open>NaT\<close> is false.\<close>

fun later :: "datetime \<Rightarrow> datetime \<Rightarrow> bool" where
  "later (Timestamp a) (Timestamp b) = (b < a)"
| "later _ _ = False"

text \<open>\<^verbatim>\<open>df.sort_values('date')\<close>: ascending, rows without a date last.\<close>

fun stamp_of :: "row \<Rightarrow> int" where
  "stamp_of r = (case date r of NaT \<Rightarrow> 0 | Timestamp t \<Rightarrow> t)"

definition sort_values :: "dataframe \<Rightarrow> dataframe" where
  "sort_values df =
     sort_key stamp_of (filter (\<lambda>r. date r \<noteq> NaT) df) @ filter (\<lambda>r. date r = NaT) df"

text \<open>\<^verbatim>\<open>df['close']\<close>: the column exists when some record had the key; \<^verbatim>\<open>.values\<close> holds
  not-a-number where a record had none.\<close>

definition has_close :: "dataframe \<Rightarrow> bool" where
  "has_close df = list_ex (\<lambda>r. close r \<noteq> None) df"

definition cell :: "real option \<Rightarrow> pyfloat" where
  "cell c = (case c of None \<Rightarrow> NaN | Some x \<Rightarrow> Num x)"

definition close_values :: "dataframe \<Rightarrow> exn + pyfloat list" where
  "close_values df =
     (if has_close df then Inr (map (\<lambda>r. cell (close r)) df) else Inl (KeyError ''close''))"

text \<open>Float arithmetic: not-a-number is absorbing.\<close>

fun fadd :: "pyfloat \<Rightarrow> pyfloat \<Rightarrow> pyfloat" where
  "fadd (Num a) (Num b) = Num (a + b)"
| "fadd _ _ = NaN"

fun fsub :: "pyfloat \<Rightarrow> pyfloat \<Rightarrow> pyfloat" where
  "fsub (Num a) (Num b) = Num (a - b)"
| "fsub _ _ = NaN"

fun fmul :: "pyfloat \<Rightarrow> pyfloat \<Rightarrow> pyfloat" where
  "fmul (Num a) (Num b) = Num (a * b)"
| "fmul _ _ = NaN"

text \<open>Division by a non-zero literal (the module divides by 20 only).\<close>

fun fdiv :: "pyfloat \<Rightarrow> real \<Rightarrow> pyfloat" where
  "fdiv (Num a) d = Num (a / d)"
| "fdiv NaN d = NaN"

text \<open>The finite values of an array, or \<open>None\<close> when it holds a not-a-number.\<close>

fun finite_values :: "pyfloat list \<Rightarrow> real list option" where
  "finite_values [] = Some []"
| "finite_values (NaN # xs) = None"
| "finite_values (Num x # xs) = (case finite_values xs of None \<Rightarrow> None | Some ys \<Rightarrow> Some (x # ys))"

text \<open>Python indexing \<^verbatim>\<open>xs[i]\<close>, negative indices counting from the end.\<close>

definition py_index :: "'a list \<Rightarrow> int \<Rightarrow> exn + 'a" where
  "py_index xs i =
     (if 0 \<le> i \<and> i < int (length xs) then Inr (xs ! nat i)
      else if i < 0 \<and> - int (length xs) \<le> i then Inr (xs ! nat (int (length xs) + i))
      else Inl IndexError)"

text \<open>Python slicing \<^verbatim>\<open>xs[:k]\<close>.\<close>

definition py_prefix :: "'a list \<Rightarrow> int \<Rightarrow> 'a list" where
  "py_prefix xs k = (if 0 \<le> k then take (nat k) xs else take (nat (int (length xs) + k)) xs)"

text \<open>A loop whose body may raise: the first exception ends it.\<close>

fun traverse :: "('a \<Rightarrow> exn + 'b) \<Rightarrow> 'a list \<Rightarrow> exn + 'b list" where
  "traverse f [] = Inr []"
| "traverse f (x # xs) =
     (case f x of
        Inl e \<Rightarrow> Inl e
      | Inr y \<Rightarrow> (case traverse f xs of Inl e \<Rightarrow> Inl e | Inr ys \<Rightarrow> Inr (y # ys)))"

text \<open>\<^verbatim>\<open>df.tail(n)\<close>.\<close>

definition tail :: "nat \<Rightarrow> 'a list \<Rightarrow> 'a list" where
  "tail n xs = drop (length xs - n) xs"

text \<open>scikit-learn's \<^verbatim>\<open>LinearRegression().fit(X, y)\<close> for one feature: ordinary least
  squares on centred data; a feature without variance gets coefficient 0 (the least-norm
  solution). The result is \<open>(coef, intercept)\<close>.\<close>

definition mean :: "real list \<Rightarrow> real" where
  "mean xs = sum_list xs / real (length xs)"

definition LinearRegression_fit :: "real list \<Rightarrow> real list \<Rightarrow> real \<times> real" where
  "LinearRegression_fit X y =
     (let xm = mean X; ym = mean y;
          sxx = sum_list (map (\<lambda>x. (x - xm) * (x - xm)) X);
          sxy = sum_list (map (\<lambda>(x, v). (x - xm) * (v - ym)) (zip X y));
          coef = (if sxx = 0 then 0 else sxy / sxx)
      in (coef, ym - coef * xm))"

definition LinearRegression_predict :: "real \<times> real \<Rightarrow> real list \<Rightarrow> real list" where
  "LinearRegression_predict m X = map (\<lambda>x. fst m * x + snd m) X"

text \<open>\<^verbatim>\<open>pd.Series(prices).rolling(window=w).mean()\<close>: position \<open>i\<close> holds the mean of the
  \<open>w\<close> values ending at \<open>i\<close>, and not-a-number while fewer than \<open>w\<close> values are there or one
  of them is not a number.\<close>

definition window_mean :: "pyfloat list \<Rightarrow> pyfloat" where
  "window_mean ws = (case finite_values ws of None \<Rightarrow> NaN | Some xs \<Rightarrow> Num (mean xs))"

definition rolling_mean :: "nat \<Rightarrow> pyfloat list \<Rightarrow> pyfloat list" where
  "rolling_mean w prices =
     map (\<lambda>i. if i + 1 < w then NaN else window_mean (take w (drop (i + 1 - w) prices)))
       [0..<length prices]"

section \<open>The module's functions\<close>

text \<open>\<^verbatim>\<open>prepare_dataframe\<close> (lines 100-105). \<^verbatim>\<open>df['date']\<close> raises \<^verbatim>\<open>KeyError\<close> when no record
  has the key (so also for the empty list); \<^verbatim>\<open>pd.to_datetime\<close> turns an absent cell into
  \<^verbatim>\<open>NaT\<close> and raises a \<^verbatim>\<open>ValueError\<close> on text that does not parse.\<close>

definition to_datetime :: "env \<Rightarrow> string option \<Rightarrow> exn + datetime" where
  "to_datetime E c =
     (case c of
        None \<Rightarrow> Inr NaT
      | Some s \<Rightarrow> (case parse_date E s of None \<Rightarrow> Inl ValueError | Some t \<Rightarrow> Inr (Timestamp t)))"

definition prepare_dataframe :: "env \<Rightarrow> hist_record list \<Rightarrow> exn + dataframe" where
  "prepare_dataframe E hist =
     (if \<not> list_ex (\<lambda>h. hist_date h \<noteq> None) hist then Inl (KeyError ''date'')
      else case traverse (\<lambda>h. to_datetime E (hist_date h)) hist of
             Inl e \<Rightarrow> Inl e
           | Inr ds \<Rightarrow> Inr (sort_values (map (\<lambda>(d, h). \<lparr>date = d, close = hist_close h\<rparr>) (zip ds hist))))"

text \<open>The body shared by the three loops that build the answer (lines 201-206, 228-234,
  253-259): point \<open>i\<close> is dated \<open>last_date + (i + 1)\<close> days.\<close>

definition point :: "datetime \<Rightarrow> nat \<Rightarrow> pyfloat \<Rightarrow> exn + prediction" where
  "point last_date i v =
     (case strftime (add_days last_date (int i + 1)) of
        Inl e \<Rightarrow> Inl e
      | Inr d \<Rightarrow> Inr \<lparr>p_date = d, p_close = v\<rparr>)"

text \<open>\<^verbatim>\<open>predict_linear_regression\<close> (lines 180-208). The column \<^verbatim>\<open>close\<close> of \<^verbatim>\<open>df_train\<close>
  exists when the one of \<^verbatim>\<open>df\<close> does, and holds its last 60 cells. \<^verbatim>\<open>fit\<close> refuses a target
  with a not-a-number; for \<open>days \<le> 0\<close> the array \<^verbatim>\<open>future_days\<close> is empty and
  one-dimensional, which \<^verbatim>\<open>predict\<close> refuses.\<close>

definition predict_linear_regression :: "dataframe \<Rightarrow> int \<Rightarrow> exn + prediction list" where
  "predict_linear_regression df days =
     (let df_train = tail 60 df;
          X = map real [0..<length df_train]
      in case close_values df of
           Inl e \<Rightarrow> Inl e
         | Inr column \<Rightarrow>
             (case finite_values (tail 60 column) of
                None \<Rightarrow> Inl ValueError
              | Some y \<Rightarrow>
                  (let fitted = LinearRegression_fit X y;
                       last_day = length df_train;
                       future_days = map (\<lambda>i. real (last_day + i)) [1..<nat (days + 1)]
                   in if days \<le> 0 then Inl ValueError
                      else
                        (let predictions_values = LinearRegression_predict fitted future_days;
                             last_date = date_max df
                         in traverse (\<lambda>(i, pred). point last_date i (Num pred))
                              (enumerate 0 predictions_values)))))"

text \<open>\<^verbatim>\<open>predict_lstm\<close> (lines 210-236): exponential smoothing. \<open>smooth\<close> is the loop of lines
  217-218, its first argument the list \<^verbatim>\<open>smoothed\<close> built so far.\<close>

definition alpha :: real where
  "alpha = 0.3"

fun smooth :: "pyfloat list \<Rightarrow> pyfloat list \<Rightarrow> pyfloat list" where
  "smooth smoothed [] = smoothed"
| "smooth smoothed (p # ps) =
     smooth (smoothed @ [fadd (fmul (Num alpha) p) (fmul (Num (1 - alpha)) (last smoothed))]) ps"

definition lstm_trend :: "pyfloat list \<Rightarrow> exn + pyfloat" where
  "lstm_trend smoothed =
     (case py_index smoothed (- 1) of
        Inl e \<Rightarrow> Inl e
      | Inr a \<Rightarrow> (case py_index smoothed (- 20) of
                   Inl e \<Rightarrow> Inl e
                 | Inr b \<Rightarrow> Inr (fdiv (fsub a b) 20)))"

definition predict_lstm :: "dataframe \<Rightarrow> int \<Rightarrow> exn + prediction list" where
  "predict_lstm df days =
     (case close_values df of
        Inl e \<Rightarrow> Inl e
      | Inr prices \<Rightarrow>
          (case prices of
             [] \<Rightarrow> Inl IndexError
           | p0 # rest \<Rightarrow>
               (let smoothed = smooth [p0] rest;
                    last_date = date_max df;
                    last_value = last smoothed
                in case lstm_trend smoothed of
                     Inl e \<Rightarrow> Inl e
                   | Inr trend \<Rightarrow>
                       traverse (\<lambda>i. point last_date i (fadd last_value (fmul trend (Num (real i + 1)))))
                         [0..<nat days])))"

text \<open>\<^verbatim>\<open>predict_arima\<close> (lines 238-261): moving average plus trend.\<close>

definition window :: nat where
  "window = 20"

definition arima_trend :: "pyfloat list \<Rightarrow> exn + pyfloat" where
  "arima_trend prices =
     (case py_index prices (- 1) of
        Inl e \<Rightarrow> Inl e
      | Inr a \<Rightarrow> (case py_index prices (- int window) of
                   Inl e \<Rightarrow> Inl e
                 | Inr b \<Rightarrow> Inr (fdiv (fsub a b) (real window))))"

definition predict_arima :: "dataframe \<Rightarrow> int \<Rightarrow> exn + prediction list" where
  "predict_arima df days =
     (case close_values df of
        Inl e \<Rightarrow> Inl e
      | Inr prices \<Rightarrow>
          (let ma = rolling_mean window prices
           in case py_index ma (- 1) of
                Inl e \<Rightarrow> Inl e
              | Inr last_ma \<Rightarrow>
                  (case arima_trend prices of
                     Inl e \<Rightarrow> Inl e
                   | Inr trend \<Rightarrow>
                       (let last_date = date_max df
                        in traverse (\<lambda>i. point last_date i (fadd last_ma (fmul trend (Num (real i + 1)))))
                             [0..<nat days]))))"

text \<open>\<^verbatim>\<open>predict_neural_prophet\<close> (lines 107-148) and \<^verbatim>\<open>predict_prophet\<close> (lines 150-178).
  \<open>library_forecast\<close> is the \<^verbatim>\<open>try\<close> block both share: select the two columns, fit and
  predict, keep the rows dated after the last historical date, cut to \<open>days\<close> entries. Any
  exception inside it sends the call to linear regression.\<close>

definition library_forecast :: "forecaster \<Rightarrow> dataframe \<Rightarrow> int \<Rightarrow> exn + prediction list" where
  "library_forecast lib df days =
     (if \<not> has_close df then Inl (KeyError ''close'')
      else case lib (map (\<lambda>r. (date r, close r)) df) days of
             Inl e \<Rightarrow> Inl e
           | Inr forecast \<Rightarrow>
               (let last_historical_date = date_max df
                in case traverse (\<lambda>(ds, yhat).
                            case strftime ds of Inl e \<Rightarrow> Inl e
                            | Inr d \<Rightarrow> Inr \<lparr>p_date = d, p_close = yhat\<rparr>)
                          (filter (\<lambda>(ds, yhat). later ds last_historical_date) forecast) of
                     Inl e \<Rightarrow> Inl e
                   | Inr predictions \<Rightarrow> Inr (py_prefix predictions days)))"

definition predict_neural_prophet :: "env \<Rightarrow> dataframe \<Rightarrow> int \<Rightarrow> exn + prediction list" where
  "predict_neural_prophet E df days =
     (case NeuralProphet E of
        None \<Rightarrow> predict_linear_regression df days
      | Some lib \<Rightarrow>
          (case library_forecast lib df days of
             Inl e \<Rightarrow> predict_linear_regression df days
           | Inr predictions \<Rightarrow> Inr predictions))"

definition predict_prophet :: "env \<Rightarrow> dataframe \<Rightarrow> int \<Rightarrow> exn + prediction list" where
  "predict_prophet E df days =
     (case Prophet E of
        None \<Rightarrow> predict_linear_regression df days
      | Some lib \<Rightarrow>
          (case library_forecast lib df days of
             Inl e \<Rightarrow> predict_linear_regression df days
           | Inr predictions \<Rightarrow> Inr predictions))"

text \<open>\<^verbatim>\<open>predict_stock\<close> (lines 263-295). \<open>predict_stock_body\<close> is the \<^verbatim>\<open>try\<close> block;
  \<open>predict_stock\<close> adds the handler \<^verbatim>\<open>except Exception as e\<close>, which catches every exception
  of the block, the two \<^verbatim>\<open>HTTPException\<close>s raised in it included, and raises status 500.\<close>

definition predict_stock_body :: "env \<Rightarrow> request \<Rightarrow> exn + response" where
  "predict_stock_body E req =
     (case prepare_dataframe E (req_historical req) of
        Inl e \<Rightarrow> Inl e
      | Inr df \<Rightarrow>
          if length df < 30 then Inl (HTTPException 400 (Detail ''Insufficient historical data''))
          else
            (case (if req_model req = ''neural_prophet'' then predict_neural_prophet E df (req_days req)
                   else if req_model req = ''prophet'' then predict_prophet E df (req_days req)
                   else if req_model req = ''lstm'' then predict_lstm df (req_days req)
                   else if req_model req = ''arima'' then predict_arima df (req_days req)
                   else if req_model req = ''linear_regression'' then predict_linear_regression df (req_days req)
                   else Inl (HTTPException 400 (Detail ''Invalid model''))) of
               Inl e \<Rightarrow> Inl e
             | Inr predictions \<Rightarrow>
                 Inr \<lparr>resp_symbol = req_symbol req, resp_model = req_model req,
                      resp_predictions = predictions\<rparr>))"

definition predict_stock :: "env \<Rightarrow> request \<Rightarrow> exn + response" where
  "predict_stock E req =
     (case predict_stock_body E req of
        Inl e \<Rightarrow> Inl (HTTPException 500 (StrOf e))
      | Inr r \<Rightarrow> Inr r)"

section \<open>The specification's formulas\<close>

text \<open>The five recognized model names (section 6 of the specification).\<close>

definition model_names :: "string list" where
  "model_names = [''neural_prophet'', ''prophet'', ''lstm'', ''arima'', ''linear_regression'']"

text \<open>Section 4.4 in its own words: \<open>smoothed[0] = price[0]\<close> and
  \<open>smoothed[i] = \<alpha> * price[i] + (1 - \<alpha>) * smoothed[i - 1]\<close> with \<open>\<alpha> = 0.3\<close>.\<close>

fun spec_smoothed :: "real list \<Rightarrow> nat \<Rightarrow> real" where
  "spec_smoothed price 0 = price ! 0"
| "spec_smoothed price (Suc i) = 0.3 * price ! Suc i + 0.7 * spec_smoothed price i"

text \<open>The trailing simple moving average of section 4.5: the mean of the last \<open>w\<close> prices.\<close>

definition spec_moving_average :: "nat \<Rightarrow> real list \<Rightarrow> real" where
  "spec_moving_average w price = sum_list (drop (length price - w) price) / real w"

text \<open>The future points of sections 4.4 and 4.5 in their own words, \<open>i\<close> counted from 1:
  \<open>smoothed[last] + trend * i\<close> with the trend \<open>(smoothed[last] - smoothed[last - 20]) / 20\<close>,
  and \<open>last_moving_average + trend * i\<close> with the trend \<open>(price[last] - price[last - 20]) / 20\<close>.\<close>

definition spec_lstm_point :: "real list \<Rightarrow> nat \<Rightarrow> real" where
  "spec_lstm_point price i =
     (let last = length price - 1;
          trend = (spec_smoothed price last - spec_smoothed price (last - 20)) / 20
      in spec_smoothed price last + trend * real i)"

definition spec_arima_point :: "real list \<Rightarrow> nat \<Rightarrow> real" where
  "spec_arima_point price i =
     (let last = length price - 1;
          trend = (price ! last - price ! (last - 20)) / 20
      in spec_moving_average 20 price + trend * real i)"




section \<open>A concrete environment and concrete requests\<close>

text \<open>A parser for the documented date format \<^verbatim>\<open>YYYY-MM-DD\<close>: midnight of that day, in
  nanoseconds since 1970-01-01.\<close>

definition digit :: "char \<Rightarrow> nat option" where
  "digit c = (let n = (of_char c :: nat) in if 48 \<le> n \<and> n \<le> 57 then Some (n - 48) else None)"

fun number :: "char list \<Rightarrow> nat option" where
  "number [] = Some 0"
| "number (c # cs) =
     (case digit c of
        None \<Rightarrow> None
      | Some d \<Rightarrow> (case number cs of None \<Rightarrow> None | Some n \<Rightarrow> Some (d * 10 ^ length cs + n)))"

definition leap_year :: "nat \<Rightarrow> bool" where
  "leap_year y = (y mod 4 = 0 \<and> (y mod 100 \<noteq> 0 \<or> y mod 400 = 0))"

definition days_in_month :: "nat \<Rightarrow> nat \<Rightarrow> nat" where
  "days_in_month y m =
     (if m = 2 then (if leap_year y then 29 else 28)
      else if m = 4 \<or> m = 6 \<or> m = 9 \<or> m = 11 then 30 else 31)"

definition days_from_civil :: "nat \<Rightarrow> nat \<Rightarrow> nat \<Rightarrow> int" where
  "days_from_civil y m d =
     (let y' = (if m \<le> 2 then int y - 1 else int y);
          era = y' div 400;
          yoe = y' - era * 400;
          mp = (if 2 < m then int m - 3 else int m + 9);
          doy = (153 * mp + 2) div 5 + int d - 1;
          doe = yoe * 365 + yoe div 4 - yoe div 100 + doy
      in era * 146097 + doe - 719468)"

definition parse_iso :: "string \<Rightarrow> int option" where
  "parse_iso s =
     (case s of
        [y1, y2, y3, y4, s1, m1, m2, s2, d1, d2] \<Rightarrow>
          (if s1 = CHR ''-'' \<and> s2 = CHR ''-'' then
             (case (number [y1, y2, y3, y4], number [m1, m2], number [d1, d2]) of
                (Some y, Some m, Some d) \<Rightarrow>
                  (if 1 \<le> m \<and> m \<le> 12 \<and> 1 \<le> d \<and> d \<le> days_in_month y m
                   then Some (days_from_civil y m d * day_ns) else None)
              | _ \<Rightarrow> None)
           else None)
      | _ \<Rightarrow> None)"

text \<open>The runtime without the optional libraries.\<close>

definition plain_env :: env where
  "plain_env = \<lparr>parse_date = parse_iso, NeuralProphet = None, Prophet = None\<rparr>"



text \<open>Histories of up to 60 daily records from 2024-01-01 on (January has 31 days, the
  February of 2024 has 29), with the given closes.\<close>

definition two_digits :: "nat \<Rightarrow> string" where
  "two_digits n = [''0123456789'' ! (n div 10), ''0123456789'' ! (n mod 10)]"

definition nth_date :: "nat \<Rightarrow> string" where
  "nth_date i = (if i < 31 then ''2024-01-'' @ two_digits (i + 1) else ''2024-02-'' @ two_digits (i - 30))"

definition history :: "real list \<Rightarrow> hist_record list" where
  "history closes = map (\<lambda>(i, c). \<lparr>hist_date = Some (nth_date i), hist_close = Some c\<rparr>) (enumerate 0 closes)"

text \<open>The frame that \<open>history\<close> is prepared into: 2024-01-01 is day 19723.\<close>

definition frame :: "real list \<Rightarrow> dataframe" where
  "frame closes =
     map (\<lambda>(i, c). \<lparr>date = Timestamp ((19723 + int i) * day_ns), close = Some c\<rparr>) (enumerate 0 closes)"

text \<open>Thirty closes of 100; sixty closes on the line \<open>100 + i\<close>; thirty closes that step
  from 10 to 20 at index 10; thirty closes whose smoothing steps from 10 to 13 at index 10.\<close>

definition flat_closes :: "real list" where
  "flat_closes = replicate 30 100"

definition line_closes :: "real list" where
  "line_closes = map (\<lambda>i. 100 + real i) [0..<60]"

definition step_closes :: "real list" where
  "step_closes = replicate 10 10 @ replicate 20 20"

definition bump_closes :: "real list" where
  "bump_closes = replicate 10 10 @ [20] @ replicate 19 13"

section \<open>Loops that may raise\<close>

lemma traverse_map:
  "(\<And>x. x \<in> set xs \<Longrightarrow> f x = Inr (g x)) \<Longrightarrow> traverse f xs = Inr (map g xs)"
  by (induction xs) auto


section \<open>The concrete histories\<close>

lemma digit_nth: "k < 10 \<Longrightarrow> digit (''0123456789'' ! k) = Some k"
proof -
  assume "k < 10"
  then have "k \<in> {0,1,2,3,4,5,6,7,8,9}" by auto
  then show ?thesis by (auto simp: digit_def)
qed

lemma number_two_digits: "n < 100 \<Longrightarrow> number (two_digits n) = Some n"
  by (simp add: two_digits_def digit_nth)

lemma number_2024: "number ''2024'' = Some 2024"
  by (simp add: digit_def)

lemma number_01: "number ''01'' = Some 1" "number ''02'' = Some 2"
  by (simp_all add: digit_def)

lemma two_digits_chars: "\<exists>a b. two_digits n = [a, b]"
  by (simp add: two_digits_def)

lemma parse_january:
  assumes "1 \<le> d" "d \<le> 31"
  shows "parse_iso (''2024-01-'' @ two_digits d) = Some ((19722 + int d) * day_ns)"
proof -
  obtain a b where ab: "two_digits d = [a, b]" using two_digits_chars by blast
  have n: "number [a, b] = Some d" using number_two_digits[of d] assms ab by simp
  show ?thesis
    using assms n number_2024 number_01
    by (simp add: ab parse_iso_def days_in_month_def days_from_civil_def del: number.simps)
qed

lemma parse_february:
  assumes "1 \<le> d" "d \<le> 29"
  shows "parse_iso (''2024-02-'' @ two_digits d) = Some ((19753 + int d) * day_ns)"
proof -
  obtain a b where ab: "two_digits d = [a, b]" using two_digits_chars by blast
  have n: "number [a, b] = Some d" using number_two_digits[of d] assms ab by simp
  show ?thesis
    using assms n number_2024 number_01
    by (simp add: ab parse_iso_def days_in_month_def leap_year_def days_from_civil_def del: number.simps)
qed

lemma parse_nth_date:
  "i < 60 \<Longrightarrow> parse_iso (nth_date i) = Some ((19723 + int i) * day_ns)"
proof (cases "i < 31")
  case True
  then show ?thesis using parse_january[of "i + 1"] by (simp add: nth_date_def)
next
  case False
  moreover assume "i < 60"
  ultimately show ?thesis using parse_february[of "i - 30"] by (simp add: nth_date_def)
qed

lemma length_frame: "length (frame cs) = length cs"
  by (simp add: frame_def)

lemma sort_values_frame: "sort_values (frame cs) = frame cs"
proof -
  have dated: "filter (\<lambda>r. date r \<noteq> NaT) (frame cs) = frame cs"
    by (auto simp: frame_def filter_id_conv enumerate_eq_zip in_set_zip)
  have undated: "filter (\<lambda>r. date r = NaT) (frame cs) = []"
    by (auto simp: frame_def filter_empty_conv enumerate_eq_zip in_set_zip)
  have keys: "map stamp_of (frame cs) = map (\<lambda>i. (19723 + int i) * day_ns) [0..<length cs]"
    by (auto simp: frame_def enumerate_eq_zip intro!: nth_equalityI)
  have "sorted (map stamp_of (frame cs))"
    unfolding keys by (auto simp: sorted_iff_nth_mono day_ns_def)
  then have "sort_key stamp_of (frame cs) = frame cs"
    by (rule sort_key_id_if_sorted)
  with dated undated show ?thesis by (simp add: sort_values_def)
qed

lemma history_has_date: "cs \<noteq> [] \<Longrightarrow> list_ex (\<lambda>h. hist_date h \<noteq> None) (history cs)"
  by (cases cs) (simp_all add: history_def)

lemma prepare_history:
  assumes "cs \<noteq> []" "length cs \<le> 60" "parse_date E = parse_iso"
  shows "prepare_dataframe E (history cs) = Inr (frame cs)"
proof -
  have tr: "traverse (\<lambda>h. to_datetime E (hist_date h)) (history cs)
      = Inr (map (\<lambda>h. Timestamp (the (parse_iso (the (hist_date h))))) (history cs))"
    using assms(2,3)
    by (intro traverse_map) (auto simp: history_def enumerate_eq_zip in_set_zip to_datetime_def parse_nth_date)
  have "map (\<lambda>(d, h). \<lparr>date = d, close = hist_close h\<rparr>)
          (zip (map (\<lambda>h. Timestamp (the (parse_iso (the (hist_date h))))) (history cs)) (history cs))
        = frame cs"
    using assms(2)
    by (auto simp: history_def frame_def enumerate_eq_zip parse_nth_date intro!: nth_equalityI)
  with history_has_date[OF assms(1)] tr show ?thesis
    by (simp add: prepare_dataframe_def sort_values_frame)
qed

section \<open>The preparer\<close>





section \<open>The checks of the endpoint\<close>

lemma body_short:
  "prepare_dataframe E (req_historical req) = Inr df \<Longrightarrow> length df < 30 \<Longrightarrow>
   predict_stock_body E req = Inl (HTTPException 400 (Detail ''Insufficient historical data''))"
  by (simp add: predict_stock_body_def)

lemma body_unknown:
  "prepare_dataframe E (req_historical req) = Inr df \<Longrightarrow> \<not> length df < 30 \<Longrightarrow>
   req_model req \<notin> set model_names \<Longrightarrow>
   predict_stock_body E req = Inl (HTTPException 400 (Detail ''Invalid model''))"
  by (simp add: predict_stock_body_def model_names_def)

text \<open>
  Claim C2, at a history of one record. The \<^verbatim>\<open>try\<close> block raises the exception with status
  400 that the claim describes; the handler \<^verbatim>\<open>except Exception\<close> of the same function
  catches it and the caller gets status 500.
\<close>

theorem insufficient_data_status_500:
  "predict_stock plain_env
     \<lparr>req_symbol = ''ACME'', req_model = ''lstm'', req_days = 5, req_historical = history [100]\<rparr>
   = Inl (HTTPException 500 (StrOf (HTTPException 400 (Detail ''Insufficient historical data''))))"
proof -
  have "prepare_dataframe plain_env (history [100]) = Inr (frame [100])"
    by (rule prepare_history) (simp_all add: plain_env_def)
  then have "predict_stock_body plain_env
     \<lparr>req_symbol = ''ACME'', req_model = ''lstm'', req_days = 5, req_historical = history [100]\<rparr>
     = Inl (HTTPException 400 (Detail ''Insufficient historical data''))"
    by (intro body_short[where df = "frame [100]"]) (simp_all add: length_frame)
  then show ?thesis by (simp add: predict_stock_def)
qed

text \<open>
  Claim C3, as the code has it. The length check comes before the dispatch on the model
  name: for a request whose model is none of the five names, the \<^verbatim>\<open>try\<close> block raises the
  exception of the length check when the prepared series has fewer than 30 records, and
  the exception \<^verbatim>\<open>Invalid model\<close> otherwise.
\<close>

theorem unknown_model_after_length_check:
  assumes "prepare_dataframe E (req_historical req) = Inr df"
      and "req_model req \<notin> set model_names"
  shows "predict_stock_body E req =
           Inl (HTTPException 400
                 (Detail (if length df < 30 then ''Insufficient historical data'' else ''Invalid model'')))"
  using assms by (simp add: body_short body_unknown)

text \<open>The theorem at thirty records and the model name \<^verbatim>\<open>foo\<close>.\<close>

theorem unknown_model_after_length_check_witness:
  "prepare_dataframe plain_env (history flat_closes) = Inr (frame flat_closes) \<and>
   ''foo'' \<notin> set model_names \<and>
   predict_stock_body plain_env
     \<lparr>req_symbol = ''ACME'', req_model = ''foo'', req_days = 5, req_historical = history flat_closes\<rparr>
   = Inl (HTTPException 400 (Detail ''Invalid model''))"
proof -
  have p: "prepare_dataframe plain_env (history flat_closes) = Inr (frame flat_closes)"
    by (rule prepare_history) (simp_all add: plain_env_def flat_closes_def)
  have m: "''foo'' \<notin> set model_names" by (simp add: model_names_def)
  show ?thesis
    using p m unknown_model_after_length_check[of plain_env
        "\<lparr>req_symbol = ''ACME'', req_model = ''foo'', req_days = 5, req_historical = history flat_closes\<rparr>"
        "frame flat_closes"]
    by (simp add: length_frame flat_closes_def)
qed

text \<open>Claim C3 as the specification states it fails: with one record and an unknown model
  name, the exception is the one of the length check.\<close>

theorem unknown_model_short_history_counterexample:
  "''foo'' \<notin> set model_names \<and>
   predict_stock_body plain_env
     \<lparr>req_symbol = ''ACME'', req_model = ''foo'', req_days = 5, req_historical = history [100]\<rparr>
   = Inl (HTTPException 400 (Detail ''Insufficient historical data'')) \<and>
   predict_stock plain_env
     \<lparr>req_symbol = ''ACME'', req_model = ''foo'', req_days = 5, req_historical = history [100]\<rparr>
   \<noteq> Inl (HTTPException 400 (Detail ''Invalid model''))"
proof -
  have "prepare_dataframe plain_env (history [100]) = Inr (frame [100])"
    by (rule prepare_history) (simp_all add: plain_env_def)
  then have "predict_stock_body plain_env
     \<lparr>req_symbol = ''ACME'', req_model = ''foo'', req_days = 5, req_historical = history [100]\<rparr>
     = Inl (HTTPException 400 (Detail ''Insufficient historical data''))"
    by (intro body_short[where df = "frame [100]"]) (simp_all add: length_frame)
  then show ?thesis by (simp add: predict_stock_def model_names_def)
qed

text \<open>
  Claim C10. For the empty historical list \<^verbatim>\<open>prepare_dataframe\<close> raises (the frame has no
  column \<^verbatim>\<open>date\<close>), the length check is not reached, and the caller gets status 500.
\<close>

theorem empty_history_server_error:
  assumes "req_historical req = []"
  shows "prepare_dataframe E (req_historical req) = Inl (KeyError ''date'') \<and>
         predict_stock E req = Inl (HTTPException 500 (StrOf (KeyError ''date'')))"
  using assms by (simp add: prepare_dataframe_def predict_stock_body_def predict_stock_def)

text \<open>The theorem at a request with no records.\<close>

theorem empty_history_server_error_witness:
  "predict_stock plain_env
     \<lparr>req_symbol = ''ACME'', req_model = ''lstm'', req_days = 5, req_historical = []\<rparr>
   = Inl (HTTPException 500 (StrOf (KeyError ''date'')))"
  using empty_history_server_error[of
     "\<lparr>req_symbol = ''ACME'', req_model = ''lstm'', req_days = 5, req_historical = []\<rparr>" plain_env]
  by simp

section \<open>Dates of the future points\<close>

lemma strftime_add_days:
  "strftime (add_days (Timestamp t) k) = Inr (t div day_ns + k)"
  by (simp add: strftime_def add_days_def day_ns_def)

lemma point_stamp:
  "point (Timestamp t) i v = Inr \<lparr>p_date = t div day_ns + (int i + 1), p_close = v\<rparr>"
  by (simp add: point_def strftime_add_days)

lemma point_NaT: "point NaT i v = Inl ValueError"
  by (simp add: point_def strftime_def add_days_def)

lemma upt_from_1: "[1..<n + 1] = map Suc [0..<n]"
  by (simp add: map_Suc_upt)

lemma loop_points:
  assumes "\<And>i. g i = h (Suc i)"
  shows "traverse (\<lambda>i. point (Timestamp t) i (g i)) [0..<nat days]
   = Inr (map (\<lambda>k. \<lparr>p_date = t div day_ns + int k, p_close = h k\<rparr>) [1..<nat (days + 1)])"
proof -
  have tr: "traverse (\<lambda>i. point (Timestamp t) i (g i)) [0..<nat days]
      = Inr (map (\<lambda>i. \<lparr>p_date = t div day_ns + (int i + 1), p_close = g i\<rparr>) [0..<nat days])"
    by (intro traverse_map) (simp add: point_stamp)
  show ?thesis
  proof (cases "0 < days")
    case False
    then have "nat days = 0" "[1..<nat (days + 1)] = []" by auto
    then show ?thesis by simp
  next
    case True
    then have "nat (days + 1) = nat days + 1" by linarith
    then have "[1..<nat (days + 1)] = map Suc [0..<nat days]" by (simp only: upt_from_1)
    then show ?thesis unfolding tr by (simp add: comp_def assms)
  qed
qed

lemma py_index_last: "xs \<noteq> [] \<Longrightarrow> py_index xs (- 1) = Inr (xs ! (length xs - 1))"
  by (cases xs) (auto simp: py_index_def nat_diff_distrib)

lemma py_index_back:
  assumes "0 < k" "k \<le> length xs"
  shows "py_index xs (- int k) = Inr (xs ! (length xs - k))"
proof -
  have "nat (int (length xs) + - int k) = length xs - k" using assms by linarith
  then show ?thesis using assms by (simp add: py_index_def)
qed

lemma py_index_short: "length xs < k \<Longrightarrow> py_index xs (- int k) = Inl IndexError"
  by (auto simp: py_index_def)

lemma close_values_numeric:
  assumes "map close df = map Some price" "df \<noteq> []"
  shows "close_values df = Inr (map Num price)"
proof -
  have len: "length df = length price" using assms(1) by (metis length_map)
  have "close (hd df) \<noteq> None" using assms len by (cases df; cases price) auto
  then have "has_close df" using assms(2) by (cases df) (auto simp: has_close_def)
  moreover have "map (\<lambda>r. cell (close r)) df = map Num price"
  proof (rule nth_equalityI)
    show "length (map (\<lambda>r. cell (close r)) df) = length (map Num price)" using len by simp
  next
    fix i assume "i < length (map (\<lambda>r. cell (close r)) df)"
    then have i: "i < length df" by simp
    then have "map close df ! i = map Some price ! i" using assms(1) by simp
    then have "close (df ! i) = Some (price ! i)" using i len by simp
    then show "map (\<lambda>r. cell (close r)) df ! i = map Num price ! i"
      using i len by (simp add: cell_def)
  qed
  ultimately show ?thesis by (simp add: close_values_def)
qed

lemma smooth_spec:
  assumes "0 < k" "k \<le> length xs"
  shows "smooth (map (\<lambda>i. Num (spec_smoothed xs i)) [0..<k]) (map Num (drop k xs))
         = map (\<lambda>i. Num (spec_smoothed xs i)) [0..<length xs]"
  using assms
proof (induction "length xs - k" arbitrary: k)
  case 0
  then show ?case by simp
next
  case (Suc d)
  then have k: "k < length xs" by simp
  from \<open>0 < k\<close> obtain j where j: "k = Suc j" by (cases k) auto
  have dr: "drop k xs = xs ! k # drop (Suc k) xs" using k by (simp add: Cons_nth_drop_Suc)
  have step: "map (\<lambda>i. Num (spec_smoothed xs i)) [0..<k]
        @ [fadd (fmul (Num alpha) (Num (xs ! k)))
                (fmul (Num (1 - alpha)) (last (map (\<lambda>i. Num (spec_smoothed xs i)) [0..<k])))]
      = map (\<lambda>i. Num (spec_smoothed xs i)) [0..<Suc k]"
    by (simp add: j alpha_def)
  have "smooth (map (\<lambda>i. Num (spec_smoothed xs i)) [0..<Suc k]) (map Num (drop (Suc k) xs))
        = map (\<lambda>i. Num (spec_smoothed xs i)) [0..<length xs]"
    using Suc.hyps(2) k by (intro Suc.hyps(1)) simp_all
  then show ?case
    by (simp only: dr list.map smooth.simps step)
qed

lemma smooth_numeric:
  assumes "price \<noteq> []"
  shows "smooth [Num (hd price)] (map Num (tl price)) = map (\<lambda>i. Num (spec_smoothed price i)) [0..<length price]"
proof -
  have "smooth (map (\<lambda>i. Num (spec_smoothed price i)) [0..<1]) (map Num (drop 1 price))
         = map (\<lambda>i. Num (spec_smoothed price i)) [0..<length price]"
    using assms by (intro smooth_spec) (simp_all add: Suc_leI)
  then show ?thesis using assms by (simp add: hd_conv_nth drop_Suc)
qed

lemma lstm_numeric:
  assumes cl: "map close df = map Some price"
      and len: "20 \<le> length df"
      and dm: "date_max df = Timestamp t"
  shows "predict_lstm df days =
     Inr (map (\<lambda>k. \<lparr>p_date = t div day_ns + int k,
                     p_close = Num (spec_smoothed price (length price - 1)
                        + (spec_smoothed price (length price - 1) - spec_smoothed price (length price - 20)) / 20
                          * real k)\<rparr>) [1..<nat (days + 1)])"
proof -
  have lp: "length price = length df" using cl by (metis length_map)
  then have ne: "price \<noteq> []" "df \<noteq> []" using len by auto
  let ?S = "map (\<lambda>i. Num (spec_smoothed price i)) [0..<length price]"
  have cv: "close_values df = Inr (map Num price)" using cl ne(2) by (rule close_values_numeric)
  have pr: "map Num price = Num (hd price) # map Num (tl price)" using ne by (cases price) auto
  have sm: "smooth [Num (hd price)] (map Num (tl price)) = ?S" using ne(1) by (rule smooth_numeric)
  have lastS: "last ?S = Num (spec_smoothed price (length price - 1))"
    using ne by (simp add: last_conv_nth)
  have i1: "py_index ?S (- 1) = Inr (Num (spec_smoothed price (length price - 1)))"
    using ne by (subst py_index_last) simp_all
  have i20: "py_index ?S (- 20) = Inr (Num (spec_smoothed price (length price - 20)))"
    using py_index_back[of 20 ?S] len lp by simp
  have tr: "lstm_trend ?S = Inr (Num ((spec_smoothed price (length price - 1) - spec_smoothed price (length price - 20)) / 20))"
    by (simp add: lstm_trend_def i1 i20)
  have loop: "traverse (\<lambda>i. point (Timestamp t) i
        (fadd (Num (spec_smoothed price (length price - 1)))
          (fmul (Num ((spec_smoothed price (length price - 1) - spec_smoothed price (length price - 20)) / 20))
                (Num (real i + 1))))) [0..<nat days]
     = Inr (map (\<lambda>k. \<lparr>p_date = t div day_ns + int k,
                     p_close = Num (spec_smoothed price (length price - 1)
                        + (spec_smoothed price (length price - 1) - spec_smoothed price (length price - 20)) / 20
                          * real k)\<rparr>) [1..<nat (days + 1)])"
    by (rule loop_points) (simp add: add.commute)
  show ?thesis
    unfolding predict_lstm_def cv
    by (simp only: sum.case pr list.case Let_def sm tr dm lastS loop)
qed

section \<open>The moving average\<close>

lemma finite_values_Num: "finite_values (map Num xs) = Some xs"
  by (induction xs) simp_all

lemma mean_last_window:
  assumes "w \<le> length price"
  shows "mean (take w (drop (length price - w) price)) = spec_moving_average w price"
  using assms by (simp add: mean_def spec_moving_average_def)

lemma rolling_mean_last:
  assumes "window \<le> length price"
  shows "py_index (rolling_mean window (map Num price)) (- 1) = Inr (Num (spec_moving_average window price))"
proof -
  have w: "0 < window" by (simp add: window_def)
  then have ne: "price \<noteq> []" using assms by auto
  let ?n = "length price"
  have len: "length (rolling_mean window (map Num price)) = ?n" by (simp add: rolling_mean_def)
  moreover have "rolling_mean window (map Num price) \<noteq> []"
    using len ne by (metis length_0_conv)
  ultimately have "py_index (rolling_mean window (map Num price)) (- 1)
      = Inr (rolling_mean window (map Num price) ! (?n - 1))"
    using py_index_last[of "rolling_mean window (map Num price)"] by simp
  also have "rolling_mean window (map Num price) ! (?n - 1)
      = window_mean (take window (drop (?n - window) (map Num price)))"
    using ne assms w by (simp add: rolling_mean_def)
  also have "\<dots> = Num (mean (take window (drop (?n - window) price)))"
    by (simp add: window_mean_def drop_map take_map finite_values_Num)
  finally show ?thesis using mean_last_window[OF assms] by simp
qed

lemma arima_trend_numeric:
  assumes "window \<le> length price"
  shows "arima_trend (map Num price)
     = Inr (Num ((price ! (length price - 1) - price ! (length price - window)) / real window))"
proof -
  have w: "0 < window" by (simp add: window_def)
  then have ne: "map Num price \<noteq> []" using assms by auto
  have a: "py_index (map Num price) (- 1) = Inr (Num (price ! (length price - 1)))"
    using py_index_last[OF ne] ne by simp
  have b: "py_index (map Num price) (- int window) = Inr (Num (price ! (length price - window)))"
    using py_index_back[of window "map Num price"] assms w by simp
  show ?thesis by (simp add: arima_trend_def a b)
qed

lemma arima_numeric:
  assumes cl: "map close df = map Some price"
      and len: "20 \<le> length df"
      and dm: "date_max df = Timestamp t"
  shows "predict_arima df days =
     Inr (map (\<lambda>k. \<lparr>p_date = t div day_ns + int k,
                     p_close = Num (spec_moving_average 20 price
                        + (price ! (length price - 1) - price ! (length price - 20)) / 20 * real k)\<rparr>)
            [1..<nat (days + 1)])"
proof -
  have lp: "length price = length df" using cl by (metis length_map)
  then have ne: "df \<noteq> []" and wl: "window \<le> length price" using len by (auto simp: window_def)
  have cv: "close_values df = Inr (map Num price)" using cl ne by (rule close_values_numeric)
  have ma: "py_index (rolling_mean window (map Num price)) (- 1) = Inr (Num (spec_moving_average 20 price))"
    using rolling_mean_last[OF wl] by (simp add: window_def)
  have tr: "arima_trend (map Num price)
     = Inr (Num ((price ! (length price - 1) - price ! (length price - 20)) / 20))"
    using arima_trend_numeric[OF wl] by (simp add: window_def)
  have loop: "traverse (\<lambda>i. point (Timestamp t) i
        (fadd (Num (spec_moving_average 20 price))
          (fmul (Num ((price ! (length price - 1) - price ! (length price - 20)) / 20))
                (Num (real i + 1))))) [0..<nat days]
     = Inr (map (\<lambda>k. \<lparr>p_date = t div day_ns + int k,
                     p_close = Num (spec_moving_average 20 price
                        + (price ! (length price - 1) - price ! (length price - 20)) / 20 * real k)\<rparr>)
            [1..<nat (days + 1)])"
    by (rule loop_points) (simp add: add.commute)
  show ?thesis
    unfolding predict_arima_def cv
    by (simp only: sum.case Let_def ma tr dm loop)
qed



section \<open>Exponential smoothing and moving average against the specification\<close>

lemma fold_max_upt:
  "fold max (map (\<lambda>i. (c + int i) * day_ns) [Suc 0..<Suc n]) (c * day_ns) = (c + int n) * day_ns"
proof (induction n)
  case 0
  show ?case by simp
next
  case (Suc n)
  have pos: "0 \<le> day_ns" by (simp add: day_ns_def)
  have le: "(c + int n) * day_ns \<le> (c + int (Suc n)) * day_ns"
    by (rule mult_right_mono[OF _ pos]) simp
  have "fold max (map (\<lambda>i. (c + int i) * day_ns) [Suc 0..<Suc (Suc n)]) (c * day_ns)
      = max ((c + int (Suc n)) * day_ns)
            (fold max (map (\<lambda>i. (c + int i) * day_ns) [Suc 0..<Suc n]) (c * day_ns))"
    by (simp only: upt_Suc_append[of "Suc 0" "Suc n"] le_add1 Suc_le_mono le0 map_append fold_append
          list.map fold.simps comp_def id_def if_True)
  also have "\<dots> = (c + int (Suc n)) * day_ns"
    unfolding Suc.IH using le by (simp only: max_def if_True if_False split: if_splits) auto
  finally show ?case .
qed

lemma stamps_Timestamp: "stamps (map (\<lambda>i. Timestamp (f i)) xs) = map f xs"
  by (induction xs) simp_all

lemma stamps_frame:
  "stamps (map date (frame cs)) = map (\<lambda>i. (19723 + int i) * day_ns) [0..<length cs]"
proof -
  have "map date (frame cs) = map (\<lambda>i. Timestamp ((19723 + int i) * day_ns)) [0..<length cs]"
    by (auto simp: frame_def enumerate_eq_zip intro!: nth_equalityI)
  then show ?thesis by (simp only: stamps_Timestamp)
qed

lemma upt_1_2: "[Suc 0..<2] = [Suc 0]"
  by (simp add: upt_conv_Cons)

lemma upt_1_3: "[Suc 0..<3] = [Suc 0, 2]"
  by (simp add: upt_conv_Cons numeral_2_eq_2)

lemma date_max_frame:
  assumes "cs \<noteq> []"
  shows "date_max (frame cs) = Timestamp ((19722 + int (length cs)) * day_ns)"
proof -
  obtain n where n: "length cs = Suc n" using assms by (cases cs) auto
  have "[0..<Suc n] = 0 # [Suc 0..<Suc n]" by (simp add: upt_conv_Cons)
  then have "stamps (map date (frame cs))
      = (19723 * day_ns) # map (\<lambda>i. (19723 + int i) * day_ns) [Suc 0..<Suc n]"
    by (simp add: stamps_frame n)
  then show ?thesis
    using fold_max_upt[of 19723 n] by (simp add: date_max_def n)
qed

lemma closes_frame: "map close (frame cs) = map Some cs"
  by (auto simp: frame_def enumerate_eq_zip intro!: nth_equalityI)

lemma bump_nth:
  "i < 30 \<Longrightarrow> bump_closes ! i = (if i < 10 then 10 else if i = 10 then 20 else 13)"
  by (auto simp: bump_closes_def nth_append nth_Cons')

lemma smoothed_bump: "i < 30 \<Longrightarrow> spec_smoothed bump_closes i = (if i < 10 then 10 else 13)"
proof (induction i)
  case 0
  then show ?case by (simp add: bump_nth)
next
  case (Suc i)
  then have "spec_smoothed bump_closes i = (if i < 10 then 10 else 13)" by simp
  then show ?case using Suc.prems by (simp add: bump_nth)
qed

lemma step_nth: "i < 30 \<Longrightarrow> step_closes ! i = (if i < 10 then 10 else 20)"
  by (auto simp: step_closes_def nth_append)

lemma average_step: "spec_moving_average 20 step_closes = 20"
  by (simp add: spec_moving_average_def step_closes_def sum_list_replicate)

text \<open>
  Claim C5, as the code has it. For a series of at least 30 records with numeric closes,
  \<^verbatim>\<open>predict_lstm\<close> smooths the whole series by the recurrence of section 4.4 and returns
  as the \<open>i\<close>-th future point (counted from 1) \<open>smoothed[last] + trend * i\<close>, dated \<open>i\<close> days
  after the last date. Its trend is \<open>(smoothed[last] - smoothed[last - 19]) / 20\<close>:
  \<^verbatim>\<open>smoothed[-20]\<close> is the twentieth value from the end, which is \<open>last - 19\<close>, where the
  specification writes \<open>last - 20\<close>.
\<close>

theorem lstm_formula:
  assumes "30 \<le> length df"
      and "map close df = map Some price"
      and "date_max df = Timestamp t"
  shows "predict_lstm df days =
     Inr (map (\<lambda>i. \<lparr>p_date = t div day_ns + int i,
                     p_close = Num (spec_smoothed price (length price - 1)
                        + (spec_smoothed price (length price - 1)
                            - spec_smoothed price (length price - 1 - 19)) / 20 * real i)\<rparr>)
            [1..<nat (days + 1)])"
  using lstm_numeric[OF assms(2) _ assms(3), of days] assms(1) by simp

text \<open>The theorem at the thirty closes whose smoothing steps from 10 to 13 at index 10.\<close>

theorem lstm_formula_witness:
  "30 \<le> length (frame bump_closes) \<and>
   map close (frame bump_closes) = map Some bump_closes \<and>
   date_max (frame bump_closes) = Timestamp (19752 * day_ns) \<and>
   predict_lstm (frame bump_closes) 2 =
     Inr [\<lparr>p_date = 19753, p_close = Num 13\<rparr>, \<lparr>p_date = 19754, p_close = Num 13\<rparr>]"
proof -
  have l: "30 \<le> length (frame bump_closes)" by (simp add: length_frame bump_closes_def)
  have d: "date_max (frame bump_closes) = Timestamp (19752 * day_ns)"
    using date_max_frame[of bump_closes] by (simp add: bump_closes_def)
  have n: "length bump_closes = 30" by (simp add: bump_closes_def)
  show ?thesis
    using l d lstm_formula[OF l closes_frame d, of 2]
    by (simp add: closes_frame n smoothed_bump upt_1_2 upt_1_3 day_ns_def)
qed

text \<open>Claim C5 as the specification states it fails at the same series: the smoothed
  values at \<open>last\<close> and \<open>last - 19\<close> are both 13, the one at \<open>last - 20\<close> is 10; the code
  returns 13, the formula of the specification gives 13.15.\<close>

theorem lstm_trend_spans_19_counterexample:
  "predict_lstm (frame bump_closes) 1 = Inr [\<lparr>p_date = 19753, p_close = Num 13\<rparr>] \<and>
   spec_lstm_point bump_closes 1 = 13.15"
proof -
  have l: "20 \<le> length (frame bump_closes)" by (simp add: length_frame bump_closes_def)
  have d: "date_max (frame bump_closes) = Timestamp (19752 * day_ns)"
    using date_max_frame[of bump_closes] by (simp add: bump_closes_def)
  have n: "length bump_closes = 30" by (simp add: bump_closes_def)
  have "predict_lstm (frame bump_closes) 1 = Inr [\<lparr>p_date = 19753, p_close = Num 13\<rparr>]"
    using lstm_numeric[OF closes_frame l d, of 1]
    by (simp add: n smoothed_bump upt_1_2 upt_1_3 day_ns_def)
  moreover have "spec_lstm_point bump_closes 1 = 13.15"
    by (simp add: spec_lstm_point_def n smoothed_bump)
  ultimately show ?thesis by simp
qed

text \<open>
  Claim C6, as the code has it. For a series of at least 30 records with numeric closes,
  \<^verbatim>\<open>predict_arima\<close> takes the mean of the last 20 closes and returns as the \<open>i\<close>-th future
  point (counted from 1) \<open>last_moving_average + trend * i\<close>, dated \<open>i\<close> days after the last
  date. Its trend is \<open>(price[last] - price[last - 19]) / 20\<close>: \<^verbatim>\<open>prices[-window]\<close> is the
  first close of the trailing window of 20, which is \<open>last - 19\<close>, where the specification
  writes \<open>last - 20\<close>.
\<close>

theorem arima_formula:
  assumes "30 \<le> length df"
      and "map close df = map Some price"
      and "date_max df = Timestamp t"
  shows "predict_arima df days =
     Inr (map (\<lambda>i. \<lparr>p_date = t div day_ns + int i,
                     p_close = Num (spec_moving_average 20 price
                        + (price ! (length price - 1) - price ! (length price - 1 - 19)) / 20 * real i)\<rparr>)
            [1..<nat (days + 1)])"
  using arima_numeric[OF assms(2) _ assms(3), of days] assms(1) by simp

text \<open>The theorem at the thirty closes that step from 10 to 20 at index 10.\<close>

theorem arima_formula_witness:
  "30 \<le> length (frame step_closes) \<and>
   map close (frame step_closes) = map Some step_closes \<and>
   date_max (frame step_closes) = Timestamp (19752 * day_ns) \<and>
   predict_arima (frame step_closes) 2 =
     Inr [\<lparr>p_date = 19753, p_close = Num 20\<rparr>, \<lparr>p_date = 19754, p_close = Num 20\<rparr>]"
proof -
  have l: "30 \<le> length (frame step_closes)" by (simp add: length_frame step_closes_def)
  have d: "date_max (frame step_closes) = Timestamp (19752 * day_ns)"
    using date_max_frame[of step_closes] by (simp add: step_closes_def)
  have n: "length step_closes = 30" by (simp add: step_closes_def)
  show ?thesis
    using l d arima_formula[OF l closes_frame d, of 2]
    by (simp add: closes_frame n step_nth average_step upt_1_2 upt_1_3 day_ns_def)
qed

text \<open>Claim C6 as the specification states it fails at the same series: the closes at
  \<open>last\<close> and \<open>last - 19\<close> are both 20, the one at \<open>last - 20\<close> is 10; the code returns 20,
  the formula of the specification gives 20.5.\<close>

theorem arima_trend_spans_19_counterexample:
  "predict_arima (frame step_closes) 1 = Inr [\<lparr>p_date = 19753, p_close = Num 20\<rparr>] \<and>
   spec_arima_point step_closes 1 = 20.5"
proof -
  have l: "20 \<le> length (frame step_closes)" by (simp add: length_frame step_closes_def)
  have d: "date_max (frame step_closes) = Timestamp (19752 * day_ns)"
    using date_max_frame[of step_closes] by (simp add: step_closes_def)
  have n: "length step_closes = 30" by (simp add: step_closes_def)
  have "predict_arima (frame step_closes) 1 = Inr [\<lparr>p_date = 19753, p_close = Num 20\<rparr>]"
    using arima_numeric[OF closes_frame l d, of 1]
    by (simp add: n step_nth average_step upt_1_2 upt_1_3 day_ns_def)
  moreover have "spec_arima_point step_closes 1 = 20.5"
    by (simp add: spec_arima_point_def n step_nth average_step)
  ultimately show ?thesis by simp
qed

section \<open>Constant series\<close>









section \<open>Linear regression\<close>

lemma enumerate_future:
  "traverse (\<lambda>(i, pred). point (Timestamp t) i (Num pred)) (enumerate 0 (map h [1..<nat (days + 1)]))
   = Inr (map (\<lambda>k. \<lparr>p_date = t div day_ns + int k, p_close = Num (h k)\<rparr>) [1..<nat (days + 1)])"
proof -
  define n where "n = nat (days + 1) - 1"
  have "[1..<nat (days + 1)] = [1..<n + 1]" by (cases "nat (days + 1)") (simp_all add: n_def)
  then have u: "[1..<nat (days + 1)] = map Suc [0..<n]" by (simp only: upt_from_1)
  have e: "enumerate 0 (map h (map Suc [0..<n])) = map (\<lambda>i. (i, h (Suc i))) [0..<n]"
    by (rule nth_equalityI) (simp_all add: enumerate_eq_zip)
  have "traverse (\<lambda>(i, pred). point (Timestamp t) i (Num pred)) (map (\<lambda>i. (i, h (Suc i))) [0..<n])
      = Inr (map (\<lambda>p. \<lparr>p_date = t div day_ns + (int (fst p) + 1), p_close = Num (snd p)\<rparr>)
               (map (\<lambda>i. (i, h (Suc i))) [0..<n]))"
    by (intro traverse_map) (auto simp: point_stamp)
  then show ?thesis unfolding u e by (simp add: comp_def)
qed

lemma tail_map: "tail n (map f xs) = map f (tail n xs)"
  by (simp add: tail_def drop_map)

lemma length_tail: "length (tail n xs) = min n (length xs)"
  by (simp add: tail_def)

lemma regression_numeric:
  assumes cl: "map close df = map Some price"
      and ne: "df \<noteq> []"
      and dm: "date_max df = Timestamp t"
      and days: "0 < days"
  shows "predict_linear_regression df days =
     Inr (map (\<lambda>k. \<lparr>p_date = t div day_ns + int k,
                     p_close = Num (fst (LinearRegression_fit (map real [0..<length (tail 60 price)]) (tail 60 price))
                                      * real (length (tail 60 price) + k)
                                    + snd (LinearRegression_fit (map real [0..<length (tail 60 price)]) (tail 60 price)))\<rparr>)
            [1..<nat (days + 1)])"
proof -
  have lp: "length price = length df" using cl by (metis length_map)
  have lt: "length (tail 60 df) = length (tail 60 price)" by (simp add: length_tail lp)
  have cv: "close_values df = Inr (map Num price)" using cl ne by (rule close_values_numeric)
  have fv: "finite_values (tail 60 (map Num price)) = Some (tail 60 price)"
    by (simp add: tail_map finite_values_Num)
  let ?m = "LinearRegression_fit (map real [0..<length (tail 60 price)]) (tail 60 price)"
  let ?n = "length (tail 60 price)"
  have pv: "LinearRegression_predict ?m (map (\<lambda>i. real (?n + i)) [1..<nat (days + 1)])
      = map (\<lambda>k. fst ?m * real (?n + k) + snd ?m) [1..<nat (days + 1)]"
    by (simp add: LinearRegression_predict_def comp_def)
  have nd: "\<not> days \<le> 0" using days by simp
  show ?thesis
    unfolding predict_linear_regression_def cv
    by (simp only: sum.case option.case Let_def fv lt pv nd if_False dm enumerate_future)
qed

lemma sum_list_line:
  "sum_list (map (\<lambda>x. a + b * x) xs) = a * real (length xs) + b * sum_list xs"
  by (induction xs) (simp_all add: algebra_simps)

lemma linear_fit:
  assumes "2 \<le> n"
  shows "LinearRegression_fit (map real [0..<n]) (map (\<lambda>i. a + b * real i) [0..<n]) = (b, a)"
proof -
  let ?X = "map real [0..<n]"
  let ?y = "map (\<lambda>i. a + b * real i) [0..<n]"
  define xm where "xm = mean ?X"
  define sxx where "sxx = sum_list (map (\<lambda>x. (x - xm) * (x - xm)) ?X)"
  have n0: "real n \<noteq> 0" using assms by simp
  have y: "?y = map (\<lambda>x. a + b * x) ?X" by (simp add: comp_def)
  have ym: "mean ?y = a + b * xm"
    unfolding y mean_def xm_def sum_list_line using n0 by (simp add: field_simps)
  have z: "zip ?X ?y = map (\<lambda>x. (x, a + b * x)) ?X"
    by (simp add: zip_map_map zip_same_conv_map comp_def)
  have sxy: "sum_list (map (\<lambda>(x, v). (x - xm) * (v - (a + b * xm))) (zip ?X ?y)) = b * sxx"
  proof -
    have "map (\<lambda>(x, v). (x - xm) * (v - (a + b * xm))) (zip ?X ?y)
        = map (\<lambda>x. b * ((x - xm) * (x - xm))) ?X"
      unfolding z by (simp add: comp_def algebra_simps)
    then show ?thesis
      unfolding sxx_def by (simp only: sum_list_const_mult)
  qed
  have pos: "0 < sxx"
  proof -
    have up: "[0..<n] = 0 # 1 # [2..<n]" using assms by (simp add: upt_conv_Cons numeral_2_eq_2)
    have rest: "0 \<le> sum_list (map (\<lambda>x. (x - xm) * (x - xm)) (map real [2..<n]))"
      by (rule sum_list_nonneg) auto
    have "xm \<noteq> 0 \<or> 1 - xm \<noteq> 0" by auto
    then have two: "0 < (0 - xm) * (0 - xm) + (1 - xm) * (1 - xm)"
      by (simp add: sum_squares_gt_zero_iff)
    have "sxx = (0 - xm) * (0 - xm) + (1 - xm) * (1 - xm)
          + sum_list (map (\<lambda>x. (x - xm) * (x - xm)) (map real [2..<n]))"
      unfolding sxx_def up by simp
    then show ?thesis using two rest by linarith
  qed
  show ?thesis
    unfolding LinearRegression_fit_def Let_def xm_def[symmetric] sxx_def[symmetric] ym sxy
    using pos by simp
qed

lemma regression_on_line:
  assumes cl: "map close df = map Some price"
      and line: "tail 60 price = map (\<lambda>i. a + b * real i) [0..<n]"
      and n: "2 \<le> n"
      and dm: "date_max df = Timestamp t"
      and days: "0 < days"
  shows "predict_linear_regression df days =
     Inr (map (\<lambda>k. \<lparr>p_date = t div day_ns + int k, p_close = Num (a + b * real (n + k))\<rparr>)
            [1..<nat (days + 1)])"
proof -
  have len: "length (tail 60 price) = n" unfolding line by simp
  have "price \<noteq> []" using len n by (auto simp: tail_def)
  then have ne: "df \<noteq> []" using cl by auto
  have fit: "LinearRegression_fit (map real [0..<n]) (tail 60 price) = (b, a)"
    unfolding line using n by (rule linear_fit)
  have "predict_linear_regression df days =
     Inr (map (\<lambda>k. \<lparr>p_date = t div day_ns + int k, p_close = Num (b * real (n + k) + a)\<rparr>)
            [1..<nat (days + 1)])"
    using regression_numeric[OF cl ne dm days]
    unfolding len fit fst_conv snd_conv .
  then show ?thesis by (simp only: add.commute[of "b * real (n + _)" a])
qed

lemma body_linear_regression:
  assumes "prepare_dataframe E (req_historical req) = Inr df" "30 \<le> length df"
      and "req_model req = ''linear_regression''"
      and "predict_linear_regression df (req_days req) = Inr ps"
  shows "predict_stock E req =
           Inr \<lparr>resp_symbol = req_symbol req, resp_model = ''linear_regression'', resp_predictions = ps\<rparr>"
  using assms by (simp add: predict_stock_def predict_stock_body_def)


text \<open>
  Claim C4, at sixty closes on the line \<open>100 + i\<close> (the last two are 158 and 159) and a
  horizon of two days. The fitted line is evaluated at the indices \<^verbatim>\<open>last_day + i\<close> with
  \<^verbatim>\<open>last_day = len(df_train)\<close>, that is at 61 and 62, while the last input has index 59:
  the point dated one day after the last input is 161 and not 160.
\<close>

theorem linear_regression_skips_a_day:
  "line_closes ! 58 = 158 \<and> line_closes ! 59 = 159 \<and>
   predict_stock plain_env
     \<lparr>req_symbol = ''ACME'', req_model = ''linear_regression'', req_days = 2,
      req_historical = history line_closes\<rparr>
   = Inr \<lparr>resp_symbol = ''ACME'', resp_model = ''linear_regression'',
          resp_predictions = [\<lparr>p_date = 19783, p_close = Num 161\<rparr>, \<lparr>p_date = 19784, p_close = Num 162\<rparr>]\<rparr>"
proof -
  have len: "length line_closes = 60" by (simp add: line_closes_def)
  have p: "prepare_dataframe plain_env (history line_closes) = Inr (frame line_closes)"
    by (rule prepare_history) (simp_all add: plain_env_def line_closes_def)
  have d: "date_max (frame line_closes) = Timestamp (19782 * day_ns)"
    using date_max_frame[of line_closes] by (simp add: line_closes_def)
  have t: "tail 60 line_closes = map (\<lambda>i. 100 + 1 * real i) [0..<60]"
    by (simp add: tail_def line_closes_def)
  have "predict_linear_regression (frame line_closes) 2 =
     Inr (map (\<lambda>k. \<lparr>p_date = 19782 * day_ns div day_ns + int k, p_close = Num (100 + 1 * real (60 + k))\<rparr>)
            [1..<nat (2 + 1)])"
    by (rule regression_on_line[OF closes_frame t _ d]) simp_all
  then have r: "predict_linear_regression (frame line_closes) 2 =
     Inr [\<lparr>p_date = 19783, p_close = Num 161\<rparr>, \<lparr>p_date = 19784, p_close = Num 162\<rparr>]"
    by (simp add: upt_1_3 day_ns_def)
  have "predict_stock plain_env
     \<lparr>req_symbol = ''ACME'', req_model = ''linear_regression'', req_days = 2,
      req_historical = history line_closes\<rparr>
   = Inr \<lparr>resp_symbol = ''ACME'', resp_model = ''linear_regression'',
          resp_predictions = [\<lparr>p_date = 19783, p_close = Num 161\<rparr>, \<lparr>p_date = 19784, p_close = Num 162\<rparr>]\<rparr>"
    using body_linear_regression[where df = "frame line_closes" and E = plain_env
        and req = "\<lparr>req_symbol = ''ACME'', req_model = ''linear_regression'', req_days = 2,
      req_historical = history line_closes\<rparr>", OF _ _ _ _] p r
    by (simp add: length_frame len)
  moreover have "line_closes ! 58 = 158" "line_closes ! 59 = 159" by (simp_all add: line_closes_def)
  ultimately show ?thesis by simp
qed


lemma neural_prophet_absent:
  "NeuralProphet E = None \<Longrightarrow> predict_neural_prophet E df days = predict_linear_regression df days"
  by (simp add: predict_neural_prophet_def)

lemma prophet_absent:
  "Prophet E = None \<Longrightarrow> predict_prophet E df days = predict_linear_regression df days"
  by (simp add: predict_prophet_def)

lemma body_as_linear_regression:
  assumes "m = ''neural_prophet'' \<and> NeuralProphet E = None \<or> m = ''prophet'' \<and> Prophet E = None"
  shows "predict_stock_body E (req\<lparr>req_model := m\<rparr>) =
           (case predict_stock_body E (req\<lparr>req_model := ''linear_regression''\<rparr>) of
              Inl e \<Rightarrow> Inl e
            | Inr r \<Rightarrow> Inr (r\<lparr>resp_model := m\<rparr>))"
proof (cases "prepare_dataframe E (req_historical req)")
  case (Inl e)
  then show ?thesis by (simp add: predict_stock_body_def)
next
  case (Inr df)
  show ?thesis
  proof (cases "length df < 30")
    case True
    with Inr show ?thesis by (simp add: predict_stock_body_def)
  next
    case False
    from assms show ?thesis
    proof
      assume a: "m = ''neural_prophet'' \<and> NeuralProphet E = None"
      show ?thesis
        by (cases "predict_linear_regression df (req_days req)")
           (simp_all add: predict_stock_body_def Inr False a neural_prophet_absent)
    next
      assume a: "m = ''prophet'' \<and> Prophet E = None"
      show ?thesis
        by (cases "predict_linear_regression df (req_days req)")
           (simp_all add: predict_stock_body_def Inr False a prophet_absent)
    qed
  qed
qed

text \<open>
  Claim C7. When the library behind the requested model is not installed, a request for
  \<^verbatim>\<open>neural_prophet\<close> or \<^verbatim>\<open>prophet\<close> is answered as the same request for
  \<^verbatim>\<open>linear_regression\<close> is, errors included, except that the field \<^verbatim>\<open>model\<close> of the
  response carries the requested name.
\<close>

theorem fallback_when_unavailable:
  assumes "m = ''neural_prophet'' \<and> NeuralProphet E = None \<or> m = ''prophet'' \<and> Prophet E = None"
  shows "predict_stock E (req\<lparr>req_model := m\<rparr>) =
           (case predict_stock E (req\<lparr>req_model := ''linear_regression''\<rparr>) of
              Inl e \<Rightarrow> Inl e
            | Inr r \<Rightarrow> Inr (r\<lparr>resp_model := m\<rparr>))"
  unfolding predict_stock_def body_as_linear_regression[OF assms]
  by (cases "predict_stock_body E (req\<lparr>req_model := ''linear_regression''\<rparr>)") simp_all

text \<open>The theorem at thirty closes of 100, the model \<^verbatim>\<open>prophet\<close> and no library.\<close>

theorem fallback_when_unavailable_witness:
  "Prophet plain_env = None \<and>
   predict_stock plain_env
     \<lparr>req_symbol = ''ACME'', req_model = ''prophet'', req_days = 2, req_historical = history flat_closes\<rparr>
   = Inr \<lparr>resp_symbol = ''ACME'', resp_model = ''prophet'',
          resp_predictions = [\<lparr>p_date = 19753, p_close = Num 100\<rparr>, \<lparr>p_date = 19754, p_close = Num 100\<rparr>]\<rparr>"
proof -
  have len: "length flat_closes = 30" by (simp add: flat_closes_def)
  have p: "prepare_dataframe plain_env (history flat_closes) = Inr (frame flat_closes)"
    by (rule prepare_history) (simp_all add: plain_env_def flat_closes_def)
  have d: "date_max (frame flat_closes) = Timestamp (19752 * day_ns)"
    using date_max_frame[of flat_closes] by (simp add: flat_closes_def)
  have t: "tail 60 flat_closes = map (\<lambda>i. 100 + 0 * real i) [0..<30]"
    by (simp add: tail_def flat_closes_def map_replicate_const)
  have "predict_linear_regression (frame flat_closes) 2 =
     Inr (map (\<lambda>k. \<lparr>p_date = 19752 * day_ns div day_ns + int k, p_close = Num (100 + 0 * real (30 + k))\<rparr>)
            [1..<nat (2 + 1)])"
    by (rule regression_on_line[OF closes_frame t _ d]) simp_all
  then have r: "predict_linear_regression (frame flat_closes) 2 =
     Inr [\<lparr>p_date = 19753, p_close = Num 100\<rparr>, \<lparr>p_date = 19754, p_close = Num 100\<rparr>]"
    by (simp add: upt_1_3 day_ns_def)
  have lr: "predict_stock plain_env
     \<lparr>req_symbol = ''ACME'', req_model = ''linear_regression'', req_days = 2,
      req_historical = history flat_closes\<rparr>
   = Inr \<lparr>resp_symbol = ''ACME'', resp_model = ''linear_regression'',
          resp_predictions = [\<lparr>p_date = 19753, p_close = Num 100\<rparr>, \<lparr>p_date = 19754, p_close = Num 100\<rparr>]\<rparr>"
    using body_linear_regression[where df = "frame flat_closes" and E = plain_env
        and req = "\<lparr>req_symbol = ''ACME'', req_model = ''linear_regression'', req_days = 2,
      req_historical = history flat_closes\<rparr>", OF _ _ _ _] p r
    by (simp add: length_frame len)
  have none: "Prophet plain_env = None" by (simp add: plain_env_def)
  show ?thesis
    using none lr fallback_when_unavailable[of "''prophet''" plain_env
      "\<lparr>req_symbol = ''ACME'', req_model = ''lstm'', req_days = 2, req_historical = history flat_closes\<rparr>"]
    by simp
qed

section \<open>Every response holds the requested number of points\<close>
































end
